theory Spec2Isabelle
  imports Main "HOL-Library.Word"
begin

unbundle bit_operations_syntax

section \<open>Machine types\<close>

type_synonym uint8_t = "8 word"
type_synonym uint16_t = "16 word"
type_synonym uint32_t = "32 word"

text \<open>
  A C \<open>int\<close> of the target (32 bits).  Operands of type \<open>uint8_t\<close> and \<open>uint16_t\<close> are
  promoted to \<open>int\<close> before \<open>+\<close>, \<open>-\<close>, \<open>*\<close> and \<open>>>\<close>; passing the result to a parameter of
  type \<open>uint8_t\<close> or \<open>uint16_t\<close> keeps its low bits.
\<close>

type_synonym c_int = "32 word"

section \<open>Arduino driver: \<open>Display_ST7789.cpp\<close>\<close>

subsection \<open>The hardware calls the driver makes\<close>

text \<open>
  Every call into the Arduino core is recorded, in program order.  \<open>DigitalWrite p True\<close> is
  \<open>digitalWrite(p, HIGH)\<close>.  \<open>SPI_beginTransaction f\<close> is
  \<open>SPI.beginTransaction(SPISettings(f, MSBFIRST, SPI_MODE0))\<close>.  \<open>SPI_transferBytes bs\<close> is
  \<open>SPI.transferBytes(data, nullptr, len)\<close> with \<open>bs\<close> the \<open>len\<close> bytes found at \<open>data\<close>.
\<close>

datatype hw_op =
    PinModeOutput uint8_t
  | DigitalWrite uint8_t bool
  | Delay nat
  | SPI_begin int int int
  | SPI_beginTransaction uint32_t
  | SPI_transfer uint8_t
  | SPI_transfer16 uint16_t
  | SPI_transferBytes "uint8_t list"
  | SPI_endTransaction
  | LedcAttach uint8_t uint16_t uint8_t
  | LedcWrite uint8_t uint32_t

subsection \<open>The object\<close>

text \<open>
  The private members of class \<open>ST7789Display\<close>.  The source writes them with a leading
  underscore (\<open>_width\<close>); here the prefix is \<open>m_\<close>.
\<close>

record ST7789Display =
  m_pin_cs :: uint8_t
  m_pin_dc :: uint8_t
  m_pin_rst :: uint8_t
  m_pin_backlight :: uint8_t
  m_width :: uint16_t
  m_height :: uint16_t
  m_offset_x :: uint8_t
  m_offset_y :: uint8_t
  m_horizontal :: bool
  m_spi_freq :: uint32_t
  m_backlight_freq :: uint16_t
  m_backlight_resolution :: uint8_t
  m_initialized :: bool

text \<open>The constants of \<open>Display_ST7789.h\<close>.\<close>

definition LCD_WIDTH :: uint16_t where "LCD_WIDTH = 172"
definition LCD_HEIGHT :: uint16_t where "LCD_HEIGHT = 320"
definition EXAMPLE_PIN_NUM_MISO :: int where "EXAMPLE_PIN_NUM_MISO = 5"
definition EXAMPLE_PIN_NUM_MOSI :: int where "EXAMPLE_PIN_NUM_MOSI = 6"
definition EXAMPLE_PIN_NUM_SCLK :: int where "EXAMPLE_PIN_NUM_SCLK = 7"
definition EXAMPLE_PIN_NUM_LCD_CS :: uint8_t where "EXAMPLE_PIN_NUM_LCD_CS = 14"
definition EXAMPLE_PIN_NUM_LCD_DC :: uint8_t where "EXAMPLE_PIN_NUM_LCD_DC = 15"
definition EXAMPLE_PIN_NUM_LCD_RST :: uint8_t where "EXAMPLE_PIN_NUM_LCD_RST = 21"
definition EXAMPLE_PIN_NUM_BK_LIGHT :: uint8_t where "EXAMPLE_PIN_NUM_BK_LIGHT = 22"
definition SPIFreq :: uint32_t where "SPIFreq = 80000000"
definition Frequency :: uint16_t where "Frequency = 1000"
definition Resolution :: uint8_t where "Resolution = 10"
definition HORIZONTAL :: bool where "HORIZONTAL = True"
definition Offset_X :: uint8_t where "Offset_X = 34"
definition Offset_Y :: uint8_t where "Offset_Y = 0"

text \<open>The default constructor \<open>ST7789Display::ST7789Display()\<close>.\<close>

definition ST7789Display_default :: ST7789Display where
  "ST7789Display_default =
     \<lparr> m_pin_cs = EXAMPLE_PIN_NUM_LCD_CS,
       m_pin_dc = EXAMPLE_PIN_NUM_LCD_DC,
       m_pin_rst = EXAMPLE_PIN_NUM_LCD_RST,
       m_pin_backlight = EXAMPLE_PIN_NUM_BK_LIGHT,
       m_width = LCD_WIDTH,
       m_height = LCD_HEIGHT,
       m_offset_x = Offset_X,
       m_offset_y = Offset_Y,
       m_horizontal = HORIZONTAL,
       m_spi_freq = SPIFreq,
       m_backlight_freq = Frequency,
       m_backlight_resolution = Resolution,
       m_initialized = False \<rparr>"

subsection \<open>Bus primitives\<close>

definition spiInit :: "ST7789Display \<Rightarrow> hw_op list" where
  "spiInit d = [SPI_begin EXAMPLE_PIN_NUM_SCLK EXAMPLE_PIN_NUM_MISO EXAMPLE_PIN_NUM_MOSI]"

definition writeCommand :: "ST7789Display \<Rightarrow> uint8_t \<Rightarrow> hw_op list" where
  "writeCommand d cmd =
     [SPI_beginTransaction (m_spi_freq d),
      DigitalWrite (m_pin_cs d) False,
      DigitalWrite (m_pin_dc d) False,
      SPI_transfer cmd,
      DigitalWrite (m_pin_cs d) True,
      SPI_endTransaction]"

definition writeData :: "ST7789Display \<Rightarrow> uint8_t \<Rightarrow> hw_op list" where
  "writeData d dat =
     [SPI_beginTransaction (m_spi_freq d),
      DigitalWrite (m_pin_cs d) False,
      DigitalWrite (m_pin_dc d) True,
      SPI_transfer dat,
      DigitalWrite (m_pin_cs d) True,
      SPI_endTransaction]"

definition writeData16 :: "ST7789Display \<Rightarrow> uint16_t \<Rightarrow> hw_op list" where
  "writeData16 d dat =
     [SPI_beginTransaction (m_spi_freq d),
      DigitalWrite (m_pin_cs d) False,
      DigitalWrite (m_pin_dc d) True,
      SPI_transfer16 dat,
      DigitalWrite (m_pin_cs d) True,
      SPI_endTransaction]"

text \<open>
  \<open>writeDataBytes(data, len)\<close>: \<open>mem\<close> is the content of the object \<open>data\<close> points into,
  from \<open>data\<close> on.  Reading more than the object holds is undefined in C: \<open>None\<close>.
\<close>

definition writeDataBytes :: "ST7789Display \<Rightarrow> uint8_t list \<Rightarrow> uint32_t \<Rightarrow> hw_op list option" where
  "writeDataBytes d mem len =
     (if length mem < unat len then None
      else Some
        [SPI_beginTransaction (m_spi_freq d),
         DigitalWrite (m_pin_cs d) False,
         DigitalWrite (m_pin_dc d) True,
         SPI_transferBytes (take (unat len) mem),
         DigitalWrite (m_pin_cs d) True,
         SPI_endTransaction])"

definition writeDataSeq :: "ST7789Display \<Rightarrow> uint8_t list \<Rightarrow> hw_op list" where
  \<comment> \<open>consecutive \<open>writeData\<close> calls, one per byte\<close>
  "writeDataSeq d bs = concat (map (writeData d) bs)"

subsection \<open>\<open>setWindow\<close>\<close>

text \<open>
  \<open>writeData(x1 >> 8)\<close> and \<open>writeData(x1 + _offset_x)\<close>: both arguments are computed as
  \<open>int\<close> and converted to the \<open>uint8_t\<close> parameter.
\<close>

definition shr8 :: "uint16_t \<Rightarrow> uint8_t" where
  "shr8 v = ucast (drop_bit 8 (ucast v :: c_int))"

definition plus_offset :: "uint16_t \<Rightarrow> uint8_t \<Rightarrow> uint8_t" where
  "plus_offset v off = ucast ((ucast v :: c_int) + (ucast off :: c_int))"

definition setWindow ::
  "ST7789Display \<Rightarrow> uint16_t \<Rightarrow> uint16_t \<Rightarrow> uint16_t \<Rightarrow> uint16_t \<Rightarrow> hw_op list" where
  "setWindow d x1 y1 x2 y2 =
     (if m_horizontal d then
        writeCommand d 0x2A
        @ writeData d (shr8 x1)
        @ writeData d (plus_offset x1 (m_offset_x d))
        @ writeData d (shr8 x2)
        @ writeData d (plus_offset x2 (m_offset_x d))
        @ writeCommand d 0x2B
        @ writeData d (shr8 y1)
        @ writeData d (plus_offset y1 (m_offset_y d))
        @ writeData d (shr8 y2)
        @ writeData d (plus_offset y2 (m_offset_y d))
      else
        writeCommand d 0x2A
        @ writeData d (shr8 y1)
        @ writeData d (plus_offset y1 (m_offset_y d))
        @ writeData d (shr8 y2)
        @ writeData d (plus_offset y2 (m_offset_y d))
        @ writeCommand d 0x2B
        @ writeData d (shr8 x1)
        @ writeData d (plus_offset x1 (m_offset_x d))
        @ writeData d (shr8 x2)
        @ writeData d (plus_offset x2 (m_offset_x d)))
     @ writeCommand d 0x2C"

subsection \<open>Initialisation\<close>

definition hardwareReset :: "ST7789Display \<Rightarrow> hw_op list" where
  "hardwareReset d =
     [DigitalWrite (m_pin_cs d) False,
      Delay 50,
      DigitalWrite (m_pin_rst d) False,
      Delay 50,
      DigitalWrite (m_pin_rst d) True,
      Delay 50]"

definition initRegisters :: "ST7789Display \<Rightarrow> hw_op list" where
  "initRegisters d =
     writeCommand d 0x11
     @ [Delay 120]
     @ writeCommand d 0x36
     @ (if m_horizontal d then writeData d 0x00 else writeData d 0x70)
     @ writeCommand d 0x3A @ writeDataSeq d [0x05]
     @ writeCommand d 0xB0 @ writeDataSeq d [0x00, 0xE8]
     @ writeCommand d 0xB2 @ writeDataSeq d [0x0C, 0x0C, 0x00, 0x33, 0x33]
     @ writeCommand d 0xB7 @ writeDataSeq d [0x35]
     @ writeCommand d 0xBB @ writeDataSeq d [0x35]
     @ writeCommand d 0xC0 @ writeDataSeq d [0x2C]
     @ writeCommand d 0xC2 @ writeDataSeq d [0x01]
     @ writeCommand d 0xC3 @ writeDataSeq d [0x13]
     @ writeCommand d 0xC4 @ writeDataSeq d [0x20]
     @ writeCommand d 0xC6 @ writeDataSeq d [0x0F]
     @ writeCommand d 0xD0 @ writeDataSeq d [0xA4, 0xA1]
     @ writeCommand d 0xD6 @ writeDataSeq d [0xA1]
     @ writeCommand d 0xE0
     @ writeDataSeq d [0xF0, 0x00, 0x04, 0x04, 0x04, 0x05, 0x29,
                       0x33, 0x3E, 0x38, 0x12, 0x12, 0x28, 0x30]
     @ writeCommand d 0xE1
     @ writeDataSeq d [0xF0, 0x07, 0x0A, 0x0D, 0x0B, 0x07, 0x28,
                       0x33, 0x3E, 0x36, 0x14, 0x14, 0x29, 0x32]
     @ writeCommand d 0x21
     @ writeCommand d 0x11
     @ [Delay 120]
     @ writeCommand d 0x29"

definition backlightInit :: "ST7789Display \<Rightarrow> hw_op list" where
  "backlightInit d =
     [LedcAttach (m_pin_backlight d) (m_backlight_freq d) (m_backlight_resolution d),
      LedcWrite (m_pin_backlight d) 100]"

text \<open>
  \<open>bool ST7789Display::begin()\<close>, here \<open>begin_display\<close>: the returned flag, the object
  afterwards, and the hardware calls made.
\<close>

definition begin_display :: "ST7789Display \<Rightarrow> bool \<times> ST7789Display \<times> hw_op list" where
  "begin_display d =
     (True,
      d\<lparr>m_initialized := True\<rparr>,
      [PinModeOutput (m_pin_cs d), PinModeOutput (m_pin_dc d), PinModeOutput (m_pin_rst d)]
      @ backlightInit d
      @ spiInit d
      @ hardwareReset d
      @ initRegisters d)"

subsection \<open>Pixel transfers\<close>

text \<open>
  \<open>(uint8_t*)buffer\<close>: the bytes of an array of \<open>uint16_t\<close> as they lie in the memory of the
  little-endian target, low byte first.
\<close>

definition bytes_of_u16 :: "uint16_t \<Rightarrow> uint8_t list" where
  "bytes_of_u16 v = [ucast v, ucast (drop_bit 8 v)]"

definition bytes_of_buffer :: "uint16_t list \<Rightarrow> uint8_t list" where
  "bytes_of_buffer buf = concat (map bytes_of_u16 buf)"

text \<open>
  \<open>drawPixelBuffer\<close>.  \<open>x2 - x1 + 1\<close> is computed as \<open>int\<close> and stored in a \<open>uint16_t\<close>;
  \<open>width * height\<close> is a product of \<open>int\<close>, undefined when it exceeds \<open>INT_MAX\<close> (\<open>None\<close>);
  the product with \<open>sizeof(uint16_t)\<close> is taken in the 32-bit \<open>size_t\<close>.
\<close>

definition drawPixelBuffer ::
  "ST7789Display \<Rightarrow> uint16_t \<Rightarrow> uint16_t \<Rightarrow> uint16_t \<Rightarrow> uint16_t \<Rightarrow> uint16_t list
     \<Rightarrow> hw_op list option" where
  "drawPixelBuffer d x1 y1 x2 y2 buffer =
     (let width = (ucast ((ucast x2 :: c_int) - ucast x1 + 1) :: uint16_t);
          height = (ucast ((ucast y2 :: c_int) - ucast y1 + 1) :: uint16_t)
      in if 2 ^ 31 \<le> unat width * unat height then None
         else
           let numBytes = ((ucast width :: c_int) * ucast height) * (2 :: uint32_t)
           in case writeDataBytes d (bytes_of_buffer buffer) numBytes of
                None \<Rightarrow> None
              | Some burst \<Rightarrow> Some (setWindow d x1 y1 x2 y2 @ burst))"

text \<open>
  \<open>clearScreen\<close>.  The line buffer is a variable-length array: \<open>_width\<close> elements of
  indeterminate content, here taken from \<open>garbage\<close>.
\<close>

definition alloca_u16 :: "uint16_t list \<Rightarrow> nat \<Rightarrow> uint16_t list" where
  "alloca_u16 garbage n = take n (garbage @ replicate n 0)"

function fill_lineBuffer ::
  "uint16_t \<Rightarrow> uint16_t \<Rightarrow> uint16_t \<Rightarrow> uint16_t list \<Rightarrow> uint16_t list" where
  \<comment> \<open>\<open>for (uint16_t i = ...; i < _width; i++) lineBuffer[i] = color;\<close>\<close>
  "fill_lineBuffer w color i lineBuffer =
     (if i < w then fill_lineBuffer w color (i + 1) (lineBuffer[unat i := color])
      else lineBuffer)"
  by pat_completeness auto
termination
proof (relation "measure (\<lambda>(w, color, i, lineBuffer). unat w - unat i)")
  show "wf (measure (\<lambda>(w, color, i, lineBuffer). unat w - unat i))"
    by simp
next
  fix w color i :: uint16_t and lineBuffer :: "uint16_t list"
  assume "i < w"
  then have "unat i < unat w"
    by (simp add: word_less_nat_alt)
  moreover from this have "unat (i + 1) = unat i + 1"
    using unsigned_less [of w, where ?'a = nat] by (simp add: unat_word_ariths)
  ultimately show "((w, color, i + 1, lineBuffer[unat i := color]), (w, color, i, lineBuffer))
      \<in> measure (\<lambda>(w, color, i, lineBuffer). unat w - unat i)"
    by simp
qed

function write_lines :: "ST7789Display \<Rightarrow> uint8_t list \<Rightarrow> uint16_t \<Rightarrow> hw_op list option" where
  \<comment> \<open>\<open>for (uint16_t y = ...; y < _height; y++) writeDataBytes(lineBuffer, _width * 2);\<close>\<close>
  "write_lines d mem y =
     (if y < m_height d then
        (case writeDataBytes d mem ((ucast (m_width d) :: uint32_t) * 2) of
           None \<Rightarrow> None
         | Some burst \<Rightarrow>
             (case write_lines d mem (y + 1) of
                None \<Rightarrow> None
              | Some rest \<Rightarrow> Some (burst @ rest)))
      else Some [])"
  by pat_completeness auto
termination
proof (relation "measure (\<lambda>(d, mem, y). unat (m_height d) - unat y)")
  show "wf (measure (\<lambda>(d, mem, y). unat (m_height d) - unat y))"
    by simp
next
  fix d :: ST7789Display and mem :: "uint8_t list" and y :: uint16_t and burst :: "hw_op list"
  assume "y < m_height d"
  then have "unat y < unat (m_height d)"
    by (simp add: word_less_nat_alt)
  moreover from this have "unat (y + 1) = unat y + 1"
    using unsigned_less [of "m_height d", where ?'a = nat] by (simp add: unat_word_ariths)
  ultimately show "((d, mem, y + 1), (d, mem, y))
      \<in> measure (\<lambda>(d, mem, y). unat (m_height d) - unat y)"
    by simp
qed

declare fill_lineBuffer.simps [simp del] write_lines.simps [simp del]

definition clearScreen :: "ST7789Display \<Rightarrow> uint16_t list \<Rightarrow> uint16_t \<Rightarrow> hw_op list option" where
  "clearScreen d garbage color =
     (let lineBuffer = fill_lineBuffer (m_width d) color 0 (alloca_u16 garbage (unat (m_width d)))
      in case write_lines d (bytes_of_buffer lineBuffer) 0 of
           None \<Rightarrow> None
         | Some bursts \<Rightarrow>
             Some (setWindow d 0 0
                     (ucast ((ucast (m_width d) :: c_int) - 1))
                     (ucast ((ucast (m_height d) :: c_int) - 1))
                   @ bursts))"

subsection \<open>Backlight\<close>

definition setBacklight :: "ST7789Display \<Rightarrow> uint8_t \<Rightarrow> hw_op list" where
  "setBacklight d brightness =
     (let brightness = (if brightness > 100 then 100 else brightness);
          duty = ((ucast brightness :: c_int) * 10 :: uint32_t)
      in [LedcWrite (m_pin_backlight d) duty])"

section \<open>ESP-IDF driver: \<open>LCD_Driver/ST7789.c\<close>\<close>

subsection \<open>Types and constants\<close>

text \<open>
  \<open>esp_err_t\<close> is an \<open>int\<close>.  The three codes the driver names have the values of the SDK's
  \<open>esp_err.h\<close>; an SDK call may return any code.
\<close>

type_synonym esp_err_t = int

definition ESP_OK :: esp_err_t where "ESP_OK = 0"
definition ESP_ERR_INVALID_ARG :: esp_err_t where "ESP_ERR_INVALID_ARG = 0x102"
definition ESP_ERR_INVALID_STATE :: esp_err_t where "ESP_ERR_INVALID_STATE = 0x103"

text \<open>Handles are pointers; 0 is \<open>NULL\<close>.\<close>

type_synonym handle = "32 word"

text \<open>
  Modelled from the spec: the enumerator \<open>LEDC_TIMER_13_BIT\<close> of the SDK's
  \<open>driver/ledc.h\<close>, which is not part of the sources.  It selects the 13-bit duty
  resolution; the specification gives 8191 as the maximum duty of a 13-bit channel.
\<close>

definition LEDC_TIMER_13_BIT :: nat where "LEDC_TIMER_13_BIT = 13"

text \<open>
  The timer, mode and channel enumerators of the same header are the first of their
  enumerations.  The driver stores them and passes them back to the SDK; no property
  below depends on their values.
\<close>

definition LEDC_TIMER_0 :: int where "LEDC_TIMER_0 = 0"
definition LEDC_LOW_SPEED_MODE :: int where "LEDC_LOW_SPEED_MODE = 0"
definition LEDC_CHANNEL_0 :: int where "LEDC_CHANNEL_0 = 0"

text \<open>The constants of \<open>ST7789.h\<close> and \<open>ST7789.c\<close>.\<close>

definition ST7789_BL_TIMER :: int where "ST7789_BL_TIMER = LEDC_TIMER_0"
definition ST7789_BL_MODE :: int where "ST7789_BL_MODE = LEDC_LOW_SPEED_MODE"
definition ST7789_BL_CHANNEL :: int where "ST7789_BL_CHANNEL = LEDC_CHANNEL_0"
definition ST7789_BL_RESOLUTION :: nat where "ST7789_BL_RESOLUTION = LEDC_TIMER_13_BIT"
definition ST7789_BL_MAX_DUTY :: c_int where
  "ST7789_BL_MAX_DUTY = push_bit ST7789_BL_RESOLUTION 1 - 1"
definition BRIGHTNESS_SCALE_FACTOR :: c_int where "BRIGHTNESS_SCALE_FACTOR = 81"
definition BRIGHTNESS_MAX :: c_int where "BRIGHTNESS_MAX = 100"

record st7789_backlight_t =
  gpio_num :: int
  channel :: int
  speed_mode :: int
  timer :: int
  current_brightness :: uint8_t
  bl_is_initialized :: bool    \<comment> \<open>\<open>is_initialized\<close> of the backlight object\<close>

record st7789_config_t =
  spi_host :: int
  pin_sclk :: int
  pin_mosi :: int
  pin_cs :: int
  pin_dc :: int
  pin_rst :: int
  pixel_clock_hz :: int
  h_res :: uint16_t
  v_res :: uint16_t
  offset_x :: uint16_t
  offset_y :: uint16_t
  rgb_endian :: int
  bits_per_pixel :: uint8_t
  pin_backlight :: int
  initial_brightness :: uint8_t

record st7789_device_t =
  panel_handle :: handle
  io_handle :: handle
  backlight :: st7789_backlight_t
  config :: st7789_config_t
  is_initialized :: bool

subsection \<open>The SDK\<close>

text \<open>The calls the driver makes into the SDK and the C library, in program order.\<close>

datatype idf_call =
    Calloc
  | Esp_lcd_new_panel_io_spi int int int int
  | Esp_lcd_new_panel_st7789t handle int int uint8_t
  | Esp_lcd_panel_reset handle
  | Esp_lcd_panel_init handle
  | Esp_lcd_panel_mirror handle bool bool
  | Esp_lcd_panel_disp_on_off handle bool
  | Gpio_config int
  | Ledc_timer_config
  | Ledc_channel_config int
  | Ledc_fade_func_install
  | Ledc_set_duty int int uint32_t
  | Ledc_update_duty int int
  | Ledc_set_fade_with_time int int uint32_t uint32_t
  | Ledc_fade_start int int

text \<open>
  What the SDK answers during one call of a driver function: the code each SDK function
  returns, and the handles the two constructors store through their out-parameters.
\<close>

record sdk =
  ret_esp_lcd_new_panel_io_spi :: esp_err_t
  new_io_handle :: handle
  ret_esp_lcd_new_panel_st7789t :: esp_err_t
  new_panel_handle :: handle
  ret_esp_lcd_panel_reset :: esp_err_t
  ret_esp_lcd_panel_init :: esp_err_t
  ret_esp_lcd_panel_mirror :: esp_err_t
  ret_esp_lcd_panel_disp_on_off :: esp_err_t
  ret_gpio_config :: esp_err_t
  ret_ledc_timer_config :: esp_err_t
  ret_ledc_channel_config :: esp_err_t
  ret_ledc_fade_func_install :: esp_err_t
  ret_ledc_set_duty :: esp_err_t
  ret_ledc_update_duty :: esp_err_t
  ret_ledc_set_fade_with_time :: esp_err_t
  ret_ledc_fade_start :: esp_err_t

subsection \<open>Construction\<close>

text \<open>
  \<open>st7789_create\<close>: the argument is \<open>None\<close> for a \<open>NULL\<close> configuration; \<open>calloc_ok\<close> says
  whether \<open>calloc\<close> finds memory.  The result is the device pointer (\<open>None\<close> for \<open>NULL\<close>)
  and the calls made.
\<close>

definition zeroed_backlight :: st7789_backlight_t where
  "zeroed_backlight =
     \<lparr> gpio_num = 0, channel = 0, speed_mode = 0, timer = 0,
       current_brightness = 0, bl_is_initialized = False \<rparr>"

definition st7789_create ::
  "bool \<Rightarrow> st7789_config_t option \<Rightarrow> st7789_device_t option \<times> idf_call list" where
  "st7789_create calloc_ok cfg =
     (case cfg of
        None \<Rightarrow> (None, [])
      | Some c \<Rightarrow>
          if \<not> calloc_ok then (None, [Calloc])
          else
            (Some \<lparr> panel_handle = 0, io_handle = 0, backlight = zeroed_backlight,
                    config = c, is_initialized = False \<rparr>,
             [Calloc]))"

subsection \<open>Backlight\<close>

definition brightness_to_duty :: "uint8_t \<Rightarrow> uint16_t" where
  "brightness_to_duty brightness =
     (if brightness = 0 then 0
      else
        let brightness =
              (if (ucast brightness :: c_int) > BRIGHTNESS_MAX then ucast BRIGHTNESS_MAX
               else brightness) :: uint8_t
        in ucast (ST7789_BL_MAX_DUTY
                   - BRIGHTNESS_SCALE_FACTOR * (BRIGHTNESS_MAX - ucast brightness)))"

text \<open>
  The static functions take the pointer \<open>backlight\<close> (here \<open>bl\<close>, \<open>None\<close> for \<open>NULL\<close>) and
  return the code, the object afterwards and the calls made.
\<close>

definition backlight_init ::
  "sdk \<Rightarrow> st7789_backlight_t option \<Rightarrow> int
     \<Rightarrow> esp_err_t \<times> st7789_backlight_t option \<times> idf_call list" where
  "backlight_init k bl gpio =
     (case bl of
        None \<Rightarrow> (ESP_ERR_INVALID_ARG, None, [])
      | Some b \<Rightarrow>
          if ret_gpio_config k \<noteq> ESP_OK then
            (ret_gpio_config k, Some b, [Gpio_config gpio])
          else if ret_ledc_timer_config k \<noteq> ESP_OK then
            (ret_ledc_timer_config k, Some b, [Gpio_config gpio, Ledc_timer_config])
          else if ret_ledc_channel_config k \<noteq> ESP_OK then
            (ret_ledc_channel_config k, Some b,
             [Gpio_config gpio, Ledc_timer_config, Ledc_channel_config gpio])
          else if ret_ledc_fade_func_install k \<noteq> ESP_OK
                  \<and> ret_ledc_fade_func_install k \<noteq> ESP_ERR_INVALID_STATE then
            (ret_ledc_fade_func_install k, Some b,
             [Gpio_config gpio, Ledc_timer_config, Ledc_channel_config gpio,
              Ledc_fade_func_install])
          else
            (ESP_OK,
             Some (b\<lparr> gpio_num := gpio,
                      channel := ST7789_BL_CHANNEL,
                      speed_mode := ST7789_BL_MODE,
                      timer := ST7789_BL_TIMER,
                      current_brightness := 0,
                      bl_is_initialized := True \<rparr>),
             [Gpio_config gpio, Ledc_timer_config, Ledc_channel_config gpio,
              Ledc_fade_func_install]))"

definition backlight_set_duty ::
  "sdk \<Rightarrow> st7789_backlight_t option \<Rightarrow> uint8_t
     \<Rightarrow> esp_err_t \<times> st7789_backlight_t option \<times> idf_call list" where
  "backlight_set_duty k bl brightness =
     (case bl of
        None \<Rightarrow> (ESP_ERR_INVALID_STATE, None, [])
      | Some b \<Rightarrow>
          if \<not> bl_is_initialized b then (ESP_ERR_INVALID_STATE, Some b, [])
          else
            let brightness =
                  (if (ucast brightness :: c_int) > BRIGHTNESS_MAX then ucast BRIGHTNESS_MAX
                   else brightness) :: uint8_t;
                duty = brightness_to_duty brightness;
                set_call = Ledc_set_duty (speed_mode b) (channel b) (ucast duty)
            in if ret_ledc_set_duty k \<noteq> ESP_OK then
                 (ret_ledc_set_duty k, Some b, [set_call])
               else
                 (ret_ledc_update_duty k,
                  Some (if ret_ledc_update_duty k = ESP_OK
                        then b\<lparr>current_brightness := brightness\<rparr> else b),
                  [set_call, Ledc_update_duty (speed_mode b) (channel b)]))"

text \<open>
  A callee that was handed \<open>&device->backlight\<close> has written to the device's own member.
\<close>

definition with_backlight ::
  "st7789_device_t \<Rightarrow> esp_err_t \<times> st7789_backlight_t option \<times> idf_call list
     \<Rightarrow> esp_err_t \<times> st7789_device_t option \<times> idf_call list" where
  "with_backlight d r =
     (case r of
        (ret, None, calls) \<Rightarrow> (ret, Some d, calls)
      | (ret, Some b, calls) \<Rightarrow> (ret, Some (d\<lparr>backlight := b\<rparr>), calls))"

definition st7789_backlight_set ::
  "sdk \<Rightarrow> st7789_device_t option \<Rightarrow> uint8_t
     \<Rightarrow> esp_err_t \<times> st7789_device_t option \<times> idf_call list" where
  "st7789_backlight_set k device brightness =
     (case device of
        None \<Rightarrow> (ESP_ERR_INVALID_STATE, None, [])
      | Some d \<Rightarrow>
          if \<not> is_initialized d then (ESP_ERR_INVALID_STATE, Some d, [])
          else if \<not> bl_is_initialized (backlight d) then (ESP_ERR_INVALID_STATE, Some d, [])
          else with_backlight d (backlight_set_duty k (Some (backlight d)) brightness))"

definition st7789_backlight_get :: "st7789_device_t option \<Rightarrow> uint8_t" where
  "st7789_backlight_get device =
     (case device of
        None \<Rightarrow> 0
      | Some d \<Rightarrow>
          if \<not> bl_is_initialized (backlight d) then 0
          else current_brightness (backlight d))"

definition st7789_backlight_enable ::
  "sdk \<Rightarrow> st7789_device_t option \<Rightarrow> bool
     \<Rightarrow> esp_err_t \<times> st7789_device_t option \<times> idf_call list" where
  "st7789_backlight_enable k device enable =
     (case device of
        None \<Rightarrow> (ESP_ERR_INVALID_STATE, None, [])
      | Some d \<Rightarrow>
          if \<not> is_initialized d then (ESP_ERR_INVALID_STATE, Some d, [])
          else if enable then
            with_backlight d
              (backlight_set_duty k (Some (backlight d)) (current_brightness (backlight d)))
          else
            (ret_ledc_update_duty k, Some d,
             [Ledc_set_duty (speed_mode (backlight d)) (channel (backlight d)) 0,
              Ledc_update_duty (speed_mode (backlight d)) (channel (backlight d))]))"

definition st7789_backlight_fade ::
  "sdk \<Rightarrow> st7789_device_t option \<Rightarrow> uint8_t \<Rightarrow> uint32_t
     \<Rightarrow> esp_err_t \<times> st7789_device_t option \<times> idf_call list" where
  "st7789_backlight_fade k device target_brightness duration_ms =
     (case device of
        None \<Rightarrow> (ESP_ERR_INVALID_STATE, None, [])
      | Some d \<Rightarrow>
          if \<not> is_initialized d then (ESP_ERR_INVALID_STATE, Some d, [])
          else if \<not> bl_is_initialized (backlight d) then (ESP_ERR_INVALID_STATE, Some d, [])
          else
            let target_brightness =
                  (if (ucast target_brightness :: c_int) > BRIGHTNESS_MAX
                   then ucast BRIGHTNESS_MAX else target_brightness) :: uint8_t;
                target_duty = brightness_to_duty target_brightness;
                b = backlight d;
                fade_call = Ledc_set_fade_with_time (speed_mode b) (channel b)
                              (ucast target_duty) duration_ms
            in if ret_ledc_set_fade_with_time k \<noteq> ESP_OK then
                 (ret_ledc_set_fade_with_time k, Some d, [fade_call])
               else
                 (ret_ledc_fade_start k,
                  Some (if ret_ledc_fade_start k = ESP_OK
                        then d\<lparr>backlight := b\<lparr>current_brightness := target_brightness\<rparr>\<rparr>
                        else d),
                  [fade_call, Ledc_fade_start (speed_mode b) (channel b)]))"

subsection \<open>Initialisation\<close>

text \<open>
  \<open>st7789_init\<close>.  The two constructors of the SDK store a handle through the pointer they
  are given; the later calls use the stored handle.  The initial brightness is set through
  the public \<open>st7789_backlight_set\<close> before \<open>is_initialized\<close> is assigned; its code is
  logged and otherwise ignored.
\<close>

definition st7789_init ::
  "sdk \<Rightarrow> st7789_device_t option \<Rightarrow> esp_err_t \<times> st7789_device_t option \<times> idf_call list" where
  "st7789_init k device =
     (case device of
        None \<Rightarrow> (ESP_ERR_INVALID_ARG, None, [])
      | Some d \<Rightarrow>
          if is_initialized d then (ESP_OK, Some d, [])
          else
            let c = config d;
                d1 = d\<lparr>io_handle := new_io_handle k\<rparr>;
                t1 = [Esp_lcd_new_panel_io_spi (spi_host c) (pin_dc c) (pin_cs c)
                        (pixel_clock_hz c)]
            in if ret_esp_lcd_new_panel_io_spi k \<noteq> ESP_OK then
                 (ret_esp_lcd_new_panel_io_spi k, Some d1, t1)
               else
            let d2 = d1\<lparr>panel_handle := new_panel_handle k\<rparr>;
                t2 = t1 @ [Esp_lcd_new_panel_st7789t (io_handle d1) (pin_rst c) (rgb_endian c)
                             (bits_per_pixel c)]
            in if ret_esp_lcd_new_panel_st7789t k \<noteq> ESP_OK then
                 (ret_esp_lcd_new_panel_st7789t k, Some d2, t2)
               else
            let t3 = t2 @ [Esp_lcd_panel_reset (panel_handle d2)]
            in if ret_esp_lcd_panel_reset k \<noteq> ESP_OK then
                 (ret_esp_lcd_panel_reset k, Some d2, t3)
               else
            let t4 = t3 @ [Esp_lcd_panel_init (panel_handle d2)]
            in if ret_esp_lcd_panel_init k \<noteq> ESP_OK then
                 (ret_esp_lcd_panel_init k, Some d2, t4)
               else
            let t5 = t4 @ [Esp_lcd_panel_mirror (panel_handle d2) True False]
            in if ret_esp_lcd_panel_mirror k \<noteq> ESP_OK then
                 (ret_esp_lcd_panel_mirror k, Some d2, t5)
               else
            let t6 = t5 @ [Esp_lcd_panel_disp_on_off (panel_handle d2) True]
            in if ret_esp_lcd_panel_disp_on_off k \<noteq> ESP_OK then
                 (ret_esp_lcd_panel_disp_on_off k, Some d2, t6)
               else
            (case with_backlight d2
                    (backlight_init k (Some (backlight d2)) (pin_backlight c)) of
               (ret7, dev7, t7) \<Rightarrow>
                 if ret7 \<noteq> ESP_OK then (ret7, dev7, t6 @ t7)
                 else
                   (case st7789_backlight_set k dev7 (initial_brightness c) of
                      (ret8, dev8, t8) \<Rightarrow>
                        (ESP_OK,
                         map_option (\<lambda>d8. d8\<lparr>is_initialized := True\<rparr>) dev8,
                         t6 @ t7 @ t8))))"

subsection \<open>Default configuration\<close>

text \<open>
  \<open>SPI2_HOST\<close> and \<open>LCD_RGB_ENDIAN_BGR\<close> are enumerators of SDK headers that are not part
  of the sources.  The driver only passes them on; no property below depends on their
  values.
\<close>

definition SPI2_HOST :: int where "SPI2_HOST = 1"
definition LCD_RGB_ENDIAN_BGR :: int where "LCD_RGB_ENDIAN_BGR = 1"

definition st7789_get_default_config :: st7789_config_t where
  "st7789_get_default_config =
     \<lparr> spi_host = SPI2_HOST,
       pin_sclk = 7,
       pin_mosi = 6,
       pin_cs = 14,
       pin_dc = 15,
       pin_rst = 21,
       pixel_clock_hz = 12 * 1000 * 1000,
       h_res = 172,
       v_res = 320,
       offset_x = 34,
       offset_y = 0,
       rgb_endian = LCD_RGB_ENDIAN_BGR,
       bits_per_pixel = 16,
       pin_backlight = 22,
       initial_brightness = 75 \<rparr>"

subsection \<open>A client of the public interface\<close>

text \<open>
  The functions of \<open>ST7789.h\<close> that write to the device object, each with what the SDK
  answers during that call.  (\<open>st7789_display_on_off\<close>, \<open>st7789_set_mirror\<close>,
  \<open>st7789_set_rotation\<close>, \<open>st7789_reset\<close>, \<open>st7789_get_panel_handle\<close> and
  \<open>st7789_backlight_get\<close> only read it.)
\<close>

datatype api_call =
    Call_init sdk
  | Call_backlight_set sdk uint8_t
  | Call_backlight_enable sdk bool
  | Call_backlight_fade sdk uint8_t uint32_t

fun api_step :: "st7789_device_t option \<Rightarrow> api_call \<Rightarrow> st7789_device_t option" where
  "api_step dev (Call_init k) = fst (snd (st7789_init k dev))"
| "api_step dev (Call_backlight_set k b) = fst (snd (st7789_backlight_set k dev b))"
| "api_step dev (Call_backlight_enable k e) = fst (snd (st7789_backlight_enable k dev e))"
| "api_step dev (Call_backlight_fade k b ms) = fst (snd (st7789_backlight_fade k dev b ms))"

definition run_api :: "st7789_device_t option \<Rightarrow> api_call list \<Rightarrow> st7789_device_t option" where
  "run_api dev calls = foldl api_step dev calls"

section \<open>Vocabulary of the specification\<close>

text \<open>
  A range \<open>(a, b)\<close> carried as two big-endian 16-bit values is the four parameter bytes
  high(a), low(a), high(b), low(b), each sent as one data byte after the command.
\<close>

definition be16 :: "nat \<Rightarrow> uint8_t list" where
  "be16 v = [of_nat (v div 256), of_nat (v mod 256)]"

definition address_range :: "ST7789Display \<Rightarrow> uint8_t \<Rightarrow> nat \<Rightarrow> nat \<Rightarrow> hw_op list" where
  "address_range d cmd a b = writeCommand d cmd @ writeDataSeq d (be16 a @ be16 b)"

text \<open>
  What the specification says \<open>setWindow\<close> issues: in horizontal orientation the column
  range is X with the X offset and the row range is Y with the Y offset; in vertical
  orientation the column range is Y with the Y offset and the row range is X with the X
  offset; the memory-write command follows.
\<close>

definition setWindow_spec :: "ST7789Display \<Rightarrow> nat \<Rightarrow> nat \<Rightarrow> nat \<Rightarrow> nat \<Rightarrow> hw_op list" where
  "setWindow_spec d x1 y1 x2 y2 =
     (if m_horizontal d then
        address_range d 0x2A (x1 + unat (m_offset_x d)) (x2 + unat (m_offset_x d))
        @ address_range d 0x2B (y1 + unat (m_offset_y d)) (y2 + unat (m_offset_y d))
      else
        address_range d 0x2A (y1 + unat (m_offset_y d)) (y2 + unat (m_offset_y d))
        @ address_range d 0x2B (x1 + unat (m_offset_x d)) (x2 + unat (m_offset_x d)))
     @ writeCommand d 0x2C"

text \<open>
  A valid configuration: offset plus dimension stays within the controller's 240 by 320
  range.  A window in bounds: ordered, and inside the configured width and height.
\<close>

definition valid_config :: "ST7789Display \<Rightarrow> bool" where
  "valid_config d \<longleftrightarrow>
     unat (m_offset_x d) + unat (m_width d) \<le> 240 \<and>
     unat (m_offset_y d) + unat (m_height d) \<le> 320"

definition in_bounds ::
  "ST7789Display \<Rightarrow> uint16_t \<Rightarrow> uint16_t \<Rightarrow> uint16_t \<Rightarrow> uint16_t \<Rightarrow> bool" where
  "in_bounds d x1 y1 x2 y2 \<longleftrightarrow> x1 \<le> x2 \<and> y1 \<le> y2 \<and> x2 < m_width d \<and> y2 < m_height d"

text \<open>One bulk write: a single chip-select-framed data transaction carrying \<open>bs\<close>.\<close>

definition bulk_write :: "ST7789Display \<Rightarrow> uint8_t list \<Rightarrow> hw_op list" where
  "bulk_write d bs =
     [SPI_beginTransaction (m_spi_freq d),
      DigitalWrite (m_pin_cs d) False,
      DigitalWrite (m_pin_dc d) True,
      SPI_transferBytes bs,
      DigitalWrite (m_pin_cs d) True,
      SPI_endTransaction]"


text \<open>The stored brightness of a device is a percentage.\<close>

definition brightness_in_range :: "st7789_device_t option \<Rightarrow> bool" where
  "brightness_in_range dev =
     (case dev of None \<Rightarrow> True | Some d \<Rightarrow> current_brightness (backlight d) \<le> 100)"

text \<open>An SDK in which every call succeeds.\<close>

definition sdk_all_ok :: sdk where
  "sdk_all_ok =
     \<lparr> ret_esp_lcd_new_panel_io_spi = ESP_OK,
       new_io_handle = 0x3FC00010,
       ret_esp_lcd_new_panel_st7789t = ESP_OK,
       new_panel_handle = 0x3FC00020,
       ret_esp_lcd_panel_reset = ESP_OK,
       ret_esp_lcd_panel_init = ESP_OK,
       ret_esp_lcd_panel_mirror = ESP_OK,
       ret_esp_lcd_panel_disp_on_off = ESP_OK,
       ret_gpio_config = ESP_OK,
       ret_ledc_timer_config = ESP_OK,
       ret_ledc_channel_config = ESP_OK,
       ret_ledc_fade_func_install = ESP_OK,
       ret_ledc_set_duty = ESP_OK,
       ret_ledc_update_duty = ESP_OK,
       ret_ledc_set_fade_with_time = ESP_OK,
       ret_ledc_fade_start = ESP_OK \<rparr>"

text \<open>
  The device and its backlight object are initialised together: the two flags agree.
\<close>

definition flags_agree :: "st7789_device_t option \<Rightarrow> bool" where
  "flags_agree dev =
     (case dev of None \<Rightarrow> True
      | Some d \<Rightarrow> bl_is_initialized (backlight d) = is_initialized d)"

text \<open>
  A valid panel configuration with a Y offset: the default one with height 300 and Y offset
  20 (20 + 300 = 320), in horizontal and in vertical orientation.
\<close>

definition offset_y_panel :: ST7789Display where
  "offset_y_panel = ST7789Display_default\<lparr>m_height := 300, m_offset_y := 20\<rparr>"

definition offset_y_panel_vertical :: ST7789Display where
  "offset_y_panel_vertical =
     ST7789Display_default\<lparr>m_height := 300, m_offset_y := 20, m_horizontal := False\<rparr>"

text \<open>
  The device \<open>st7789_create\<close> returns for the default configuration, and a device whose
  display and backlight are initialised.
\<close>

definition default_device :: st7789_device_t where
  "default_device =
     \<lparr> panel_handle = 0, io_handle = 0, backlight = zeroed_backlight,
       config = st7789_get_default_config, is_initialized = False \<rparr>"

definition ready_device :: st7789_device_t where
  "ready_device =
     default_device
       \<lparr> backlight := zeroed_backlight\<lparr>gpio_num := 22, bl_is_initialized := True\<rparr>,
         is_initialized := True \<rparr>"

section \<open>Auxiliary facts\<close>

subsection \<open>Words\<close>

lemma unat_ucast_16_32: "unat (ucast (w :: uint16_t) :: c_int) = unat w"
  using unsigned_less [of w, where ?'a = nat]
  by (simp add: unsigned_ucast_eq take_bit_eq_mod)

lemma unat_Suc_below:
  assumes "(i :: uint16_t) < w"
  shows "unat (i + 1) = Suc (unat i)"
proof -
  from assms have "unat i < unat w"
    by (simp add: word_less_nat_alt)
  then show ?thesis
    using unsigned_less [of w, where ?'a = nat] by (simp add: unat_word_ariths)
qed

lemma ucast_minus_1: "(ucast ((ucast (w :: uint16_t) :: c_int) - 1) :: uint16_t) = w - 1"
  apply transfer
  subgoal for w
    using take_bit_diff [of 16 w 1] by simp
  done

lemma ucast_gt_100: "((100 :: c_int) < ucast (b :: uint8_t)) = (100 < b)"
  using unsigned_less [of b, where ?'a = nat]
  by (simp add: word_less_nat_alt unsigned_ucast_eq take_bit_eq_mod)

lemma clamp_100:
  "(if BRIGHTNESS_MAX < (ucast (b :: uint8_t) :: c_int) then ucast BRIGHTNESS_MAX else b) \<le> 100"
  by (simp add: BRIGHTNESS_MAX_def ucast_gt_100 not_less)

subsection \<open>The two parameter bytes of a coordinate\<close>

lemma shr8_eq: "shr8 v = of_nat (unat v div 256)"
proof -
  have "unat v < 65536"
    using unsigned_less [of v, where ?'a = nat] by simp
  then have "unat v div 256 < 256" by simp
  then show ?thesis
    unfolding shr8_def
    by (simp add: word_eq_iff_unsigned [where ?'a = nat] unsigned_ucast_eq unat_drop_bit_eq
        drop_bit_eq_div take_bit_eq_mod unat_of_nat unat_div)
qed

lemma plus_offset_eq: "plus_offset v off = of_nat ((unat v + unat off) mod 256)"
proof -
  have "unat v < 65536" and "unat off < 256"
    using unsigned_less [of v, where ?'a = nat] unsigned_less [of off, where ?'a = nat]
    by simp_all
  then have "unat v + unat off < 4294967296" by simp
  then show ?thesis
    unfolding plus_offset_def
    by (simp add: word_eq_iff_unsigned [where ?'a = nat] unsigned_ucast_eq
        take_bit_eq_mod unat_of_nat unat_word_ariths)
qed

text \<open>
  The high byte sent is that of the coordinate without the offset.  The two bytes are the
  big-endian form of coordinate plus offset exactly when adding the offset does not carry
  into the high byte.
\<close>

lemma coordinate_bytes_no_carry:
  "unat v div 256 = (unat v + unat off) div 256 \<Longrightarrow>
   [shr8 v, plus_offset v off] = be16 (unat v + unat off)"
  by (simp add: shr8_eq plus_offset_eq be16_def)

lemma setWindow_no_carry:
  assumes "unat x1 div 256 = (unat x1 + unat (m_offset_x d)) div 256"
    and "unat x2 div 256 = (unat x2 + unat (m_offset_x d)) div 256"
    and "unat y1 div 256 = (unat y1 + unat (m_offset_y d)) div 256"
    and "unat y2 div 256 = (unat y2 + unat (m_offset_y d)) div 256"
  shows "setWindow d x1 y1 x2 y2 = setWindow_spec d (unat x1) (unat y1) (unat x2) (unat y2)"
  using assms
  by (simp add: setWindow_def setWindow_spec_def address_range_def writeDataSeq_def
      shr8_eq plus_offset_eq be16_def)

lemma setWindow_order:
  "take 6 (setWindow d x1 y1 x2 y2) = writeCommand d 0x2A \<and>
   take 6 (drop 30 (setWindow d x1 y1 x2 y2)) = writeCommand d 0x2B \<and>
   drop 60 (setWindow d x1 y1 x2 y2) = writeCommand d 0x2C"
  by (simp add: setWindow_def writeCommand_def writeData_def)

subsection \<open>Pixel transfers\<close>

lemma length_bytes_of_buffer: "length (bytes_of_buffer buf) = length buf * 2"
  by (induction buf) (simp_all add: bytes_of_buffer_def bytes_of_u16_def)

lemma writeDataBytes_exact:
  "unat len = length mem \<Longrightarrow> writeDataBytes d mem len = Some (bulk_write d mem)"
  by (simp add: writeDataBytes_def bulk_write_def)

lemma extent_16:
  assumes "(x1 :: uint16_t) \<le> x2" "unat x2 - unat x1 < 65535"
  shows "unat (ucast ((ucast x2 :: c_int) - ucast x1 + 1) :: uint16_t) = unat x2 - unat x1 + 1"
proof -
  have le: "(ucast x1 :: c_int) \<le> ucast x2"
    using assms(1) by (simp add: word_le_nat_alt unat_ucast_16_32)
  have "unat ((ucast x2 :: c_int) - ucast x1) = unat x2 - unat x1"
    using le by (simp add: unat_sub unat_ucast_16_32)
  then have "unat ((ucast x2 :: c_int) - ucast x1 + 1) = unat x2 - unat x1 + 1"
    using assms(2) by (simp add: unat_word_ariths)
  then show ?thesis
    using assms(2) by (simp add: unsigned_ucast_eq take_bit_eq_mod)
qed

lemma numBytes_32:
  assumes "unat (w :: uint16_t) * unat (h :: uint16_t) < 2 ^ 31"
  shows "unat (((ucast w :: c_int) * ucast h) * (2 :: uint32_t)) = unat w * unat h * 2"
proof -
  define p where "p = unat w * unat h"
  have p: "p < 2 ^ 31"
    using assms by (simp add: p_def)
  have "unat ((ucast w :: c_int) * ucast h) = p mod 2 ^ 32"
    by (simp add: unat_word_ariths unat_ucast_16_32 p_def)
  with p have a: "unat ((ucast w :: c_int) * ucast h) = p"
    by simp
  have "unat (((ucast w :: c_int) * ucast h) * (2 :: uint32_t)) = p * 2 mod 2 ^ 32"
    by (subst unat_word_ariths(2)) (simp add: a)
  with p have "unat (((ucast w :: c_int) * ucast h) * (2 :: uint32_t)) = p * 2"
    by simp
  then show ?thesis
    by (simp add: p_def)
qed

lemma drawPixelBuffer_exact:
  assumes "x1 \<le> x2" and "y1 \<le> y2"
    and "unat x2 - unat x1 < 65535" and "unat y2 - unat y1 < 65535"
    and "(unat x2 - unat x1 + 1) * (unat y2 - unat y1 + 1) < 2 ^ 31"
    and "length buffer = (unat x2 - unat x1 + 1) * (unat y2 - unat y1 + 1)"
  shows "drawPixelBuffer d x1 y1 x2 y2 buffer =
           Some (setWindow d x1 y1 x2 y2 @ bulk_write d (bytes_of_buffer buffer))"
proof -
  let ?w = "ucast ((ucast x2 :: c_int) - ucast x1 + 1) :: uint16_t"
  let ?h = "ucast ((ucast y2 :: c_int) - ucast y1 + 1) :: uint16_t"
  have w: "unat ?w = unat x2 - unat x1 + 1"
    using assms(1,3) by (rule extent_16)
  have h: "unat ?h = unat y2 - unat y1 + 1"
    using assms(2,4) by (rule extent_16)
  have small: "unat ?w * unat ?h < 2 ^ 31"
    using assms(5) by (simp only: w h)
  have n: "unat (((ucast ?w :: c_int) * ucast ?h) * (2 :: uint32_t))
             = length (bytes_of_buffer buffer)"
    using numBytes_32 [OF small] assms(6) by (simp only: w h length_bytes_of_buffer)
  show ?thesis
    using small writeDataBytes_exact [OF n, of d]
    by (simp add: drawPixelBuffer_def Let_def)
qed

text \<open>
  Every window within the bounds of a valid configuration has a width and a height that
  fit 16 bits and fewer than \<open>2^31\<close> pixels.
\<close>

lemma in_bounds_fits:
  assumes "valid_config d" and "in_bounds d x1 y1 x2 y2"
  shows "unat x2 - unat x1 < 65535 \<and> unat y2 - unat y1 < 65535 \<and>
         (unat x2 - unat x1 + 1) * (unat y2 - unat y1 + 1) < 2 ^ 31"
proof -
  from assms have x: "unat x2 < 240" and y: "unat y2 < 320"
    by (simp_all add: valid_config_def in_bounds_def word_less_nat_alt)
  then have a: "unat x2 - unat x1 + 1 \<le> 240" and b: "unat y2 - unat y1 + 1 \<le> 320"
    by simp_all
  from mult_le_mono [OF a b]
  have p: "(unat x2 - unat x1 + 1) * (unat y2 - unat y1 + 1) < 2 ^ 31"
    by simp
  from x y have "unat x2 - unat x1 < 65535" and "unat y2 - unat y1 < 65535"
    by arith+
  with p show ?thesis
    by blast
qed

lemma drawPixelBuffer_in_bounds:
  assumes "valid_config d" and "in_bounds d x1 y1 x2 y2"
    and "length buffer = (unat x2 - unat x1 + 1) * (unat y2 - unat y1 + 1)"
  shows "drawPixelBuffer d x1 y1 x2 y2 buffer =
           Some (setWindow d x1 y1 x2 y2 @ bulk_write d (bytes_of_buffer buffer))"
proof -
  from assms(2) have le: "x1 \<le> x2" "y1 \<le> y2"
    by (simp_all add: in_bounds_def)
  from in_bounds_fits [OF assms(1,2)] le assms(3) show ?thesis
    by (intro drawPixelBuffer_exact) simp_all
qed

text \<open>
  Outside every panel: the window \<open>(0, 0, 65535, 0)\<close> is in bounds of no display object;
  its width 65536 does not fit the \<open>uint16_t\<close> variable \<open>width\<close>, which becomes 0, and the
  bulk write carries no byte.  The specification leaves the output for out-of-range
  windows undefined.
\<close>

lemma full_width_window_out_of_bounds: "\<not> in_bounds d 0 0 65535 0"
  using unsigned_less [of "m_width d", where ?'a = nat]
  by (simp add: in_bounds_def word_less_nat_alt)

lemma drawPixelBuffer_width_wraps:
  "drawPixelBuffer ST7789Display_default 0 0 65535 0 (replicate 65536 0) =
     Some (setWindow ST7789Display_default 0 0 65535 0 @ bulk_write ST7789Display_default [])"
  by (simp add: drawPixelBuffer_def writeDataBytes_def bulk_write_def)

subsection \<open>The loops of \<open>clearScreen\<close>\<close>

lemma length_alloca_u16: "length (alloca_u16 garbage n) = n"
  by (simp add: alloca_u16_def)

lemma fill_lineBuffer_eq:
  "length buf = unat w \<Longrightarrow> i \<le> w \<Longrightarrow>
   fill_lineBuffer w c i buf = take (unat i) buf @ replicate (unat w - unat i) c"
proof (induction w c i buf rule: fill_lineBuffer.induct)
  case (1 w color i lineBuffer)
  show ?case
  proof (cases "i < w")
    case True
    then have lt: "unat i < unat w"
      by (simp add: word_less_nat_alt)
    have suc: "unat (i + 1) = Suc (unat i)"
      using True by (rule unat_Suc_below)
    have le: "i + 1 \<le> w"
      using lt suc by (simp add: word_le_nat_alt)
    have "fill_lineBuffer w color (i + 1) (lineBuffer[unat i := color]) =
            take (unat (i + 1)) (lineBuffer[unat i := color])
            @ replicate (unat w - unat (i + 1)) color"
      using "1.IH" [OF True _ le] "1.prems"(1) by simp
    also have "take (unat (i + 1)) (lineBuffer[unat i := color])
        = take (unat i) lineBuffer @ [color]"
      using lt "1.prems"(1) by (simp add: suc take_Suc_conv_app_nth)
    also have "(take (unat i) lineBuffer @ [color]) @ replicate (unat w - unat (i + 1)) color
        = take (unat i) lineBuffer @ replicate (unat w - unat i) color"
      using lt by (simp add: suc replicate_Suc [symmetric] Suc_diff_Suc del: replicate_Suc)
    finally show ?thesis
      using True by (subst fill_lineBuffer.simps) simp
  next
    case False
    with "1.prems"(2) have "i = w" by simp
    with False "1.prems"(1) show ?thesis
      by (subst fill_lineBuffer.simps) simp
  qed
qed

lemma write_lines_eq:
  "unat ((ucast (m_width d) :: uint32_t) * 2) = length mem \<Longrightarrow>
   write_lines d mem y =
     Some (concat (replicate (unat (m_height d) - unat y) (bulk_write d mem)))"
proof (induction d mem y rule: write_lines.induct)
  case (1 d mem y)
  show ?case
  proof (cases "y < m_height d")
    case True
    then have lt: "unat y < unat (m_height d)"
      by (simp add: word_less_nat_alt)
    have suc: "unat (y + 1) = Suc (unat y)"
      using True by (rule unat_Suc_below)
    have burst:
      "writeDataBytes d mem ((ucast (m_width d) :: uint32_t) * 2) = Some (bulk_write d mem)"
      using "1.prems" by (rule writeDataBytes_exact)
    have rest: "write_lines d mem (y + 1) =
        Some (concat (replicate (unat (m_height d) - unat (y + 1)) (bulk_write d mem)))"
      using "1.IH" [OF True burst] "1.prems" by simp
    have "unat (m_height d) - unat y = Suc (unat (m_height d) - unat (y + 1))"
      using lt by (simp add: suc)
    then show ?thesis
      using True burst rest by (subst write_lines.simps) simp
  next
    case False
    then have "unat (m_height d) - unat y = 0"
      by (simp add: word_less_nat_alt)
    with False show ?thesis
      by (subst write_lines.simps) simp
  qed
qed

lemma line_bytes:
  "unat ((ucast (w :: uint16_t) :: uint32_t) * 2)
     = length (bytes_of_buffer (replicate (unat w) c))"
  using unsigned_less [of w, where ?'a = nat]
  by (simp add: length_bytes_of_buffer unat_word_ariths unat_ucast_16_32)

subsection \<open>The stored brightness\<close>

lemma backlight_set_duty_range:
  assumes "current_brightness b \<le> 100"
    and "fst (snd (backlight_set_duty k (Some b) x)) = Some b'"
  shows "current_brightness b' \<le> 100"
  using assms clamp_100 [of x]
  by (auto simp: backlight_set_duty_def Let_def split: if_splits)

lemma backlight_init_range:
  assumes "current_brightness b \<le> 100"
    and "fst (snd (backlight_init k (Some b) g)) = Some b'"
  shows "current_brightness b' \<le> 100"
  using assms
  by (auto simp: backlight_init_def split: if_splits)

lemma with_backlight_range:
  assumes "brightness_in_range (Some d)"
    and "\<And>b'. fst (snd r) = Some b' \<Longrightarrow> current_brightness b' \<le> 100"
  shows "brightness_in_range (fst (snd (with_backlight d r)))"
  using assms
  by (cases r) (auto simp: with_backlight_def brightness_in_range_def split: option.splits)

lemma st7789_backlight_set_range:
  assumes "brightness_in_range dev"
  shows "brightness_in_range (fst (snd (st7789_backlight_set k dev x)))"
proof (cases dev)
  case None
  then show ?thesis by (simp add: st7789_backlight_set_def brightness_in_range_def)
next
  case (Some d)
  with assms have d: "current_brightness (backlight d) \<le> 100"
    by (simp add: brightness_in_range_def)
  have "brightness_in_range
          (fst (snd (with_backlight d (backlight_set_duty k (Some (backlight d)) x))))"
    using assms Some backlight_set_duty_range [OF d]
    by (intro with_backlight_range) auto
  with assms Some show ?thesis
    by (simp add: st7789_backlight_set_def)
qed

lemma st7789_backlight_enable_range:
  assumes "brightness_in_range dev"
  shows "brightness_in_range (fst (snd (st7789_backlight_enable k dev e)))"
proof (cases dev)
  case None
  then show ?thesis by (simp add: st7789_backlight_enable_def brightness_in_range_def)
next
  case (Some d)
  with assms have d: "current_brightness (backlight d) \<le> 100"
    by (simp add: brightness_in_range_def)
  have "brightness_in_range
          (fst (snd (with_backlight d
             (backlight_set_duty k (Some (backlight d)) (current_brightness (backlight d))))))"
    using assms Some backlight_set_duty_range [OF d]
    by (intro with_backlight_range) auto
  with assms Some show ?thesis
    by (simp add: st7789_backlight_enable_def)
qed

lemma st7789_backlight_fade_range:
  assumes "brightness_in_range dev"
  shows "brightness_in_range (fst (snd (st7789_backlight_fade k dev x ms)))"
  using assms clamp_100 [of x]
  by (cases dev) (auto simp: st7789_backlight_fade_def brightness_in_range_def Let_def)

lemma st7789_init_range:
  assumes "brightness_in_range dev"
  shows "brightness_in_range (fst (snd (st7789_init k dev)))"
proof (cases dev)
  case None
  then show ?thesis by (simp add: st7789_init_def brightness_in_range_def)
next
  case (Some d)
  with assms have d: "current_brightness (backlight d) \<le> 100"
    by (simp add: brightness_in_range_def)
  define d2 where "d2 = d\<lparr>io_handle := new_io_handle k, panel_handle := new_panel_handle k\<rparr>"
  define r7 where
    "r7 = with_backlight d2 (backlight_init k (Some (backlight d2)) (pin_backlight (config d)))"
  have d2: "brightness_in_range (Some d2)"
    using d by (simp add: d2_def brightness_in_range_def)
  have r7: "brightness_in_range (fst (snd r7))"
    unfolding r7_def using d2 backlight_init_range [of "backlight d2"]
    by (intro with_backlight_range) (auto simp: brightness_in_range_def)
  have r8: "brightness_in_range
      (map_option (\<lambda>d8. d8\<lparr>is_initialized := True\<rparr>)
         (fst (snd (st7789_backlight_set k (fst (snd r7)) x))))" for x
    using st7789_backlight_set_range [OF r7, of k x]
    by (cases "fst (snd (st7789_backlight_set k (fst (snd r7)) x))")
       (simp_all add: brightness_in_range_def)
  have early: "brightness_in_range (Some d)"
      "brightness_in_range (Some (d\<lparr>io_handle := new_io_handle k\<rparr>))"
    using d by (simp_all add: brightness_in_range_def)
  show ?thesis
    using Some early d2 r7 r8 [of "initial_brightness (config d)"]
    by (simp add: st7789_init_def Let_def d2_def [symmetric]
        r7_def [symmetric] case_prod_beta)
qed

lemma api_step_range: "brightness_in_range dev \<Longrightarrow> brightness_in_range (api_step dev c)"
  by (cases c)
     (simp_all add: st7789_init_range st7789_backlight_set_range
        st7789_backlight_enable_range st7789_backlight_fade_range)

lemma run_api_range: "brightness_in_range dev \<Longrightarrow> brightness_in_range (run_api dev calls)"
  unfolding run_api_def
  by (induction calls arbitrary: dev) (simp_all add: api_step_range)

lemma st7789_create_range: "brightness_in_range (fst (st7789_create ok cfg))"
  by (simp add: st7789_create_def brightness_in_range_def zeroed_backlight_def
      split: option.split)

lemma st7789_backlight_get_range:
  "brightness_in_range dev \<Longrightarrow> st7789_backlight_get dev \<le> 100"
  by (cases dev) (simp_all add: st7789_backlight_get_def brightness_in_range_def)

subsection \<open>The two initialisation flags\<close>

lemma st7789_init_flags:
  "flags_agree dev \<Longrightarrow> flags_agree (fst (snd (st7789_init k dev)))"
  by (cases dev)
     (auto simp: st7789_init_def Let_def with_backlight_def backlight_init_def
        st7789_backlight_set_def flags_agree_def)

lemma st7789_backlight_set_flags:
  "flags_agree dev \<Longrightarrow> flags_agree (fst (snd (st7789_backlight_set k dev x)))"
  by (cases dev)
     (auto simp: st7789_backlight_set_def backlight_set_duty_def with_backlight_def Let_def
        flags_agree_def)

lemma st7789_backlight_enable_flags:
  "flags_agree dev \<Longrightarrow> flags_agree (fst (snd (st7789_backlight_enable k dev e)))"
  by (cases dev)
     (auto simp: st7789_backlight_enable_def backlight_set_duty_def with_backlight_def Let_def
        flags_agree_def)

lemma st7789_backlight_fade_flags:
  "flags_agree dev \<Longrightarrow> flags_agree (fst (snd (st7789_backlight_fade k dev x ms)))"
  by (cases dev) (auto simp: st7789_backlight_fade_def Let_def flags_agree_def)

lemma api_step_flags: "flags_agree dev \<Longrightarrow> flags_agree (api_step dev c)"
  by (cases c)
     (simp_all add: st7789_init_flags st7789_backlight_set_flags
        st7789_backlight_enable_flags st7789_backlight_fade_flags)

lemma run_api_flags: "flags_agree dev \<Longrightarrow> flags_agree (run_api dev calls)"
  unfolding run_api_def
  by (induction calls arbitrary: dev) (simp_all add: api_step_flags)

lemma st7789_create_flags: "flags_agree (fst (st7789_create ok cfg))"
  by (simp add: st7789_create_def flags_agree_def zeroed_backlight_def split: option.split)

lemma st7789_backlight_get_uninitialized:
  "flags_agree dev \<Longrightarrow>
   (case dev of None \<Rightarrow> True
    | Some d \<Rightarrow> is_initialized d \<or> st7789_backlight_get (Some d) = 0)"
  by (cases dev) (auto simp: flags_agree_def st7789_backlight_get_def)

subsection \<open>\<open>st7789_init\<close>\<close>

lemma with_backlight_Some: "\<exists>d'. fst (snd (with_backlight d r)) = Some d'"
  by (cases r) (auto simp: with_backlight_def split: option.splits)

lemma st7789_backlight_set_Some:
  "\<exists>d'. fst (snd (st7789_backlight_set k (Some d) b)) = Some d'"
  using with_backlight_Some [of d "backlight_set_duty k (Some (backlight d)) b"]
  by (auto simp: st7789_backlight_set_def)

lemma st7789_init_guard:
  "is_initialized d \<Longrightarrow> st7789_init k (Some d) = (ESP_OK, Some d, [])"
  by (simp add: st7789_init_def)

lemma st7789_init_ok_marks:
  assumes "fst (st7789_init k (Some d)) = ESP_OK"
  shows "\<exists>d'. fst (snd (st7789_init k (Some d))) = Some d' \<and> is_initialized d'"
proof (cases "is_initialized d")
  case True
  then show ?thesis by (simp add: st7789_init_def)
next
  case False
  define d2 where "d2 = d\<lparr>io_handle := new_io_handle k, panel_handle := new_panel_handle k\<rparr>"
  define r7 where
    "r7 = with_backlight d2 (backlight_init k (Some (backlight d2)) (pin_backlight (config d)))"
  obtain d7 where d7: "fst (snd r7) = Some d7"
    unfolding r7_def using with_backlight_Some by blast
  obtain d8 where d8:
    "fst (snd (st7789_backlight_set k (Some d7) (initial_brightness (config d)))) = Some d8"
    using st7789_backlight_set_Some by blast
  show ?thesis
    using assms False d7 d8
    by (simp add: st7789_init_def Let_def d2_def [symmetric] r7_def [symmetric]
        case_prod_beta split: if_splits)
qed

subsection \<open>Clamping\<close>

lemma backlight_set_duty_clamps:
  "100 < b \<Longrightarrow> backlight_set_duty k bl b = backlight_set_duty k bl 100"
  unfolding backlight_set_duty_def BRIGHTNESS_MAX_def
  by (simp add: ucast_gt_100 split: option.split)

lemma st7789_backlight_set_clamps:
  "100 < b \<Longrightarrow> st7789_backlight_set k dev b = st7789_backlight_set k dev 100"
  unfolding st7789_backlight_set_def
  by (simp add: backlight_set_duty_clamps split: option.split)


section \<open>Properties of \<open>setWindow\<close>\<close>

text \<open>
  Claim C1.  In horizontal orientation, for a valid configuration and a window in bounds,
  \<open>setWindow\<close> should send the column range \<open>(x1 + offset_x, x2 + offset_x)\<close> and the row
  range \<open>(y1 + offset_y, y2 + offset_y)\<close>, each value as a big-endian 16-bit number.

  It does not for the valid configuration width 172, height 300, X offset 34, Y offset 20
  and the in-bounds window \<open>(0, 0, 171, 250)\<close>: the end of the row range is
  \<open>250 + 20 = 270\<close>, whose big-endian bytes are \<open>1, 14\<close>, but the driver sends the high
  byte of 250, which is 0, and so the row range \<open>(20, 14)\<close>.
\<close>

theorem setWindow_horizontal_drops_carry:
  "valid_config offset_y_panel \<and>
   m_horizontal offset_y_panel \<and>
   in_bounds offset_y_panel 0 0 171 250 \<and>
   setWindow offset_y_panel 0 0 171 250 =
     address_range offset_y_panel 0x2A 34 205
     @ address_range offset_y_panel 0x2B 20 14
     @ writeCommand offset_y_panel 0x2C \<and>
   setWindow_spec offset_y_panel 0 0 171 250 =
     address_range offset_y_panel 0x2A 34 205
     @ address_range offset_y_panel 0x2B 20 270
     @ writeCommand offset_y_panel 0x2C \<and>
   be16 270 = [1, 14] \<and>
   setWindow offset_y_panel 0 0 171 250 \<noteq> setWindow_spec offset_y_panel 0 0 171 250"
  by (simp add: offset_y_panel_def ST7789Display_default_def LCD_WIDTH_def Offset_X_def
      HORIZONTAL_def valid_config_def in_bounds_def setWindow_def setWindow_spec_def
      address_range_def writeDataSeq_def be16_def shr8_def plus_offset_def
      writeCommand_def writeData_def)

text \<open>
  Claim C2.  In vertical orientation, for a valid configuration and a window in bounds,
  \<open>setWindow\<close> should send the column range \<open>(y1 + offset_y, y2 + offset_y)\<close> and the row
  range \<open>(x1 + offset_x, x2 + offset_x)\<close>: each axis keeps its own offset through the swap.

  The axes and their offsets do swap together, but for the same configuration as above in
  vertical orientation and the window \<open>(0, 0, 171, 250)\<close> the end of the column range,
  \<open>250 + 20 = 270\<close>, is sent with the high byte of 250: the column range is \<open>(20, 14)\<close>.
\<close>

theorem setWindow_vertical_drops_carry:
  "valid_config offset_y_panel_vertical \<and>
   \<not> m_horizontal offset_y_panel_vertical \<and>
   in_bounds offset_y_panel_vertical 0 0 171 250 \<and>
   setWindow offset_y_panel_vertical 0 0 171 250 =
     address_range offset_y_panel_vertical 0x2A 20 14
     @ address_range offset_y_panel_vertical 0x2B 34 205
     @ writeCommand offset_y_panel_vertical 0x2C \<and>
   setWindow_spec offset_y_panel_vertical 0 0 171 250 =
     address_range offset_y_panel_vertical 0x2A 20 270
     @ address_range offset_y_panel_vertical 0x2B 34 205
     @ writeCommand offset_y_panel_vertical 0x2C \<and>
   setWindow offset_y_panel_vertical 0 0 171 250
     \<noteq> setWindow_spec offset_y_panel_vertical 0 0 171 250"
  by (simp add: offset_y_panel_vertical_def ST7789Display_default_def LCD_WIDTH_def
      Offset_X_def valid_config_def in_bounds_def setWindow_def setWindow_spec_def
      address_range_def writeDataSeq_def be16_def shr8_def plus_offset_def
      writeCommand_def writeData_def)

text \<open>
  Claim C4.  With the configuration width 172, height 320, X offset 34, Y offset 0 and
  horizontal orientation (the default constructor's), \<open>setWindow(10, 20, 50, 60)\<close> sends
  the column-address command 0x2A with the parameter values 44 and 84, the row-address
  command 0x2B with the parameter values 20 and 60, and then the memory-write command.
\<close>

theorem setWindow_default_scenario:
  "m_width ST7789Display_default = 172 \<and>
   m_height ST7789Display_default = 320 \<and>
   m_offset_x ST7789Display_default = 34 \<and>
   m_offset_y ST7789Display_default = 0 \<and>
   m_horizontal ST7789Display_default \<and>
   setWindow ST7789Display_default 10 20 50 60 =
     address_range ST7789Display_default 0x2A 44 84
     @ address_range ST7789Display_default 0x2B 20 60
     @ writeCommand ST7789Display_default 0x2C"
  by (simp add: ST7789Display_default_def LCD_WIDTH_def LCD_HEIGHT_def Offset_X_def
      Offset_Y_def HORIZONTAL_def setWindow_def address_range_def writeDataSeq_def be16_def
      shr8_def plus_offset_def)

section \<open>Properties of the pixel transfers\<close>

text \<open>
  Claim C3.  For every window with \<open>x1 \<le> x2\<close> and \<open>y1 \<le> y2\<close> and a buffer of exactly
  \<open>(x2 - x1 + 1) * (y2 - y1 + 1)\<close> pixels, \<open>drawPixelBuffer\<close> makes the calls of one
  \<open>setWindow\<close> for that window followed by exactly one bulk write carrying the buffer's
  \<open>2 * length\<close> bytes; within \<open>setWindow\<close> the column-address command comes first, the
  row-address command after its four parameter bytes, and the memory-write command last,
  directly before the data burst.  The window is one whose width and height fit the
  driver's 16-bit variables and whose pixel count is below \<open>2^31\<close>: every window within
  the bounds of a valid configuration is (\<open>in_bounds_fits\<close>).
\<close>

theorem drawPixelBuffer_one_window_one_burst:
  assumes "x1 \<le> x2" and "y1 \<le> y2"
    and "unat x2 - unat x1 < 65535" and "unat y2 - unat y1 < 65535"
    and "(unat x2 - unat x1 + 1) * (unat y2 - unat y1 + 1) < 2 ^ 31"
    and "length buffer = (unat x2 - unat x1 + 1) * (unat y2 - unat y1 + 1)"
  shows "drawPixelBuffer d x1 y1 x2 y2 buffer =
           Some (setWindow d x1 y1 x2 y2 @ bulk_write d (bytes_of_buffer buffer)) \<and>
         length (bytes_of_buffer buffer) = length buffer * 2 \<and>
         take 6 (setWindow d x1 y1 x2 y2) = writeCommand d 0x2A \<and>
         take 6 (drop 30 (setWindow d x1 y1 x2 y2)) = writeCommand d 0x2B \<and>
         drop 60 (setWindow d x1 y1 x2 y2) = writeCommand d 0x2C"
  using drawPixelBuffer_exact [OF assms] setWindow_order [of d x1 y1 x2 y2]
  by (simp add: length_bytes_of_buffer)

theorem drawPixelBuffer_one_window_one_burst_witness:
  "valid_config ST7789Display_default \<and> in_bounds ST7789Display_default 0 0 1 0 \<and>
   (0 :: uint16_t) \<le> 1 \<and> (0 :: uint16_t) \<le> 0 \<and>
   unat (1 :: uint16_t) - unat (0 :: uint16_t) < 65535 \<and>
   unat (0 :: uint16_t) - unat (0 :: uint16_t) < 65535 \<and>
   (unat (1 :: uint16_t) - unat (0 :: uint16_t) + 1)
     * (unat (0 :: uint16_t) - unat (0 :: uint16_t) + 1) < (2 :: nat) ^ 31 \<and>
   length [0xF800, 0x001F :: uint16_t] =
     (unat (1 :: uint16_t) - unat (0 :: uint16_t) + 1)
     * (unat (0 :: uint16_t) - unat (0 :: uint16_t) + 1) \<and>
   drawPixelBuffer ST7789Display_default 0 0 1 0 [0xF800, 0x001F] =
     Some (setWindow ST7789Display_default 0 0 1 0
           @ bulk_write ST7789Display_default [0x00, 0xF8, 0x1F, 0x00]) \<and>
   drop 60 (setWindow ST7789Display_default 0 0 1 0) = writeCommand ST7789Display_default 0x2C"
  using drawPixelBuffer_one_window_one_burst
    [of 0 1 0 0 "[0xF800, 0x001F]" ST7789Display_default]
  by (simp add: bytes_of_buffer_def bytes_of_u16_def bulk_write_def valid_config_def
      in_bounds_def ST7789Display_default_def LCD_WIDTH_def LCD_HEIGHT_def Offset_X_def
      Offset_Y_def)

text \<open>
  Claim C8.  For every colour \<open>c\<close>, \<open>clearScreen(c)\<close> makes the calls of
  \<open>setWindow(0, 0, width - 1, height - 1)\<close> followed by exactly \<open>height\<close> bulk writes; each
  bulk write carries \<open>width * 2\<close> bytes, the bytes of the 16-bit value \<open>c\<close> repeated
  \<open>width\<close> times.
\<close>

theorem clearScreen_window_then_height_lines:
  "clearScreen d garbage c =
     Some (setWindow d 0 0 (m_width d - 1) (m_height d - 1)
           @ concat (replicate (unat (m_height d))
               (bulk_write d (bytes_of_buffer (replicate (unat (m_width d)) c)))))
   \<and> length (bytes_of_buffer (replicate (unat (m_width d)) c)) = unat (m_width d) * 2"
proof -
  have fill: "fill_lineBuffer (m_width d) c 0 (alloca_u16 garbage (unat (m_width d)))
      = replicate (unat (m_width d)) c"
    by (simp add: fill_lineBuffer_eq length_alloca_u16)
  show ?thesis
    by (simp add: clearScreen_def fill write_lines_eq [OF line_bytes] ucast_minus_1
        length_bytes_of_buffer)
qed

section \<open>Properties of initialisation\<close>

text \<open>
  Claim C5, as stated: in both drivers a second \<open>initialize()\<close> is a no-op.  The Arduino
  \<open>begin()\<close> has no guard: called again on the object the first call left (with
  \<open>_initialized\<close> set), it returns true and again configures the pins, attaches the
  backlight, starts the SPI bus and pulses the reset line.
\<close>

theorem begin_display_twice_resets_again:
  "fst (begin_display ST7789Display_default) \<and>
   m_initialized (fst (snd (begin_display ST7789Display_default))) \<and>
   fst (begin_display (fst (snd (begin_display ST7789Display_default)))) \<and>
   take 12 (snd (snd (begin_display (fst (snd (begin_display ST7789Display_default)))))) =
     [PinModeOutput 14, PinModeOutput 15, PinModeOutput 21,
      LedcAttach 22 1000 10, LedcWrite 22 100, SPI_begin 7 5 6,
      DigitalWrite 14 False, Delay 50, DigitalWrite 21 False, Delay 50,
      DigitalWrite 21 True, Delay 50]"
  by (simp add: begin_display_def ST7789Display_default_def backlightInit_def spiInit_def
      hardwareReset_def EXAMPLE_PIN_NUM_LCD_CS_def EXAMPLE_PIN_NUM_LCD_DC_def
      EXAMPLE_PIN_NUM_LCD_RST_def EXAMPLE_PIN_NUM_BK_LIGHT_def Frequency_def Resolution_def
      EXAMPLE_PIN_NUM_SCLK_def EXAMPLE_PIN_NUM_MISO_def EXAMPLE_PIN_NUM_MOSI_def)

text \<open>
  Claim C5, amended.  In the ESP-IDF driver, when \<open>st7789_init\<close> has returned \<open>ESP_OK\<close>, a
  second \<open>st7789_init\<close> on the device it left returns \<open>ESP_OK\<close>, leaves the device as it
  is and makes no SDK call (no reset, no panel initialisation), whatever the SDK would
  answer.  The Arduino \<open>begin()\<close> has no such guard: a second call returns true, leaves the
  object as the first call left it and makes the same hardware calls as the first, that
  is pin setup, backlight, SPI, hardware reset and the register sequence.
\<close>

theorem init_twice:
  "(fst (st7789_init k1 (Some d)) = ESP_OK \<longrightarrow>
      st7789_init k2 (fst (snd (st7789_init k1 (Some d)))) =
        (ESP_OK, fst (snd (st7789_init k1 (Some d))), []))
   \<and> begin_display (fst (snd (begin_display a))) =
        (True, fst (snd (begin_display a)), snd (snd (begin_display a)))
   \<and> snd (snd (begin_display a)) =
        [PinModeOutput (m_pin_cs a), PinModeOutput (m_pin_dc a), PinModeOutput (m_pin_rst a)]
        @ backlightInit a @ spiInit a @ hardwareReset a @ initRegisters a"
proof (intro conjI impI)
  assume "fst (st7789_init k1 (Some d)) = ESP_OK"
  then obtain d' where "fst (snd (st7789_init k1 (Some d))) = Some d'" "is_initialized d'"
    using st7789_init_ok_marks by blast
  then show "st7789_init k2 (fst (snd (st7789_init k1 (Some d)))) =
        (ESP_OK, fst (snd (st7789_init k1 (Some d))), [])"
    by (simp add: st7789_init_guard)
next
  show "begin_display (fst (snd (begin_display a))) =
        (True, fst (snd (begin_display a)), snd (snd (begin_display a)))"
    by (simp add: begin_display_def backlightInit_def spiInit_def hardwareReset_def
        initRegisters_def writeCommand_def writeData_def writeDataSeq_def)
next
  show "snd (snd (begin_display a)) =
        [PinModeOutput (m_pin_cs a), PinModeOutput (m_pin_dc a), PinModeOutput (m_pin_rst a)]
        @ backlightInit a @ spiInit a @ hardwareReset a @ initRegisters a"
    by (simp add: begin_display_def)
qed

theorem init_twice_witness:
  "fst (st7789_create True (Some st7789_get_default_config)) = Some default_device \<and>
   fst (st7789_init sdk_all_ok (Some default_device)) = ESP_OK \<and>
   snd (snd (st7789_init sdk_all_ok (Some default_device))) \<noteq> [] \<and>
   st7789_init sdk_all_ok (fst (snd (st7789_init sdk_all_ok (Some default_device)))) =
     (ESP_OK, fst (snd (st7789_init sdk_all_ok (Some default_device))), [])"
proof -
  have ok: "fst (st7789_init sdk_all_ok (Some default_device)) = ESP_OK"
    by (simp add: st7789_init_def default_device_def sdk_all_ok_def Let_def
        backlight_init_def with_backlight_def zeroed_backlight_def st7789_backlight_set_def)
  have calls: "snd (snd (st7789_init sdk_all_ok (Some default_device))) \<noteq> []"
    by (simp add: st7789_init_def default_device_def sdk_all_ok_def Let_def
        backlight_init_def with_backlight_def zeroed_backlight_def st7789_backlight_set_def)
  have created: "fst (st7789_create True (Some st7789_get_default_config)) = Some default_device"
    by (simp add: st7789_create_def default_device_def)
  from init_twice [of sdk_all_ok default_device sdk_all_ok ST7789Display_default] ok
  have "st7789_init sdk_all_ok (fst (snd (st7789_init sdk_all_ok (Some default_device)))) =
     (ESP_OK, fst (snd (st7789_init sdk_all_ok (Some default_device))), [])"
    by blast
  with ok calls created show ?thesis
    by blast
qed

text \<open>
  Claim C9.  \<open>st7789_create(NULL)\<close> returns \<open>NULL\<close> without calling \<open>calloc\<close>, whether or not
  memory is available; there is no device object, and the driver functions answer the
  \<open>NULL\<close> device with an error code (0 for the brightness) and no SDK call.
\<close>

theorem st7789_create_null_config:
  "st7789_create calloc_ok None = (None, []) \<and>
   st7789_init k (fst (st7789_create calloc_ok None)) = (ESP_ERR_INVALID_ARG, None, []) \<and>
   st7789_backlight_set k (fst (st7789_create calloc_ok None)) b =
     (ESP_ERR_INVALID_STATE, None, []) \<and>
   st7789_backlight_fade k (fst (st7789_create calloc_ok None)) b ms =
     (ESP_ERR_INVALID_STATE, None, []) \<and>
   st7789_backlight_get (fst (st7789_create calloc_ok None)) = 0"
  by (simp add: st7789_create_def st7789_init_def st7789_backlight_set_def
      st7789_backlight_fade_def st7789_backlight_get_def)

section \<open>Properties of the backlight\<close>




text \<open>
  Claim C7.  For every brightness argument \<open>b > 100\<close>, setting the backlight to \<open>b\<close> does
  exactly what setting it to 100 does: the Arduino \<open>setBacklight\<close> writes the same duty
  (it stores nothing), and the ESP-IDF \<open>st7789_backlight_set\<close> and the
  \<open>backlight_set_duty\<close> it calls return the same code, leave the same device state and
  make the same SDK calls with the same duty.
\<close>

theorem setBacklight_clamps:
  "100 < b \<Longrightarrow>
   setBacklight a b = setBacklight a 100 \<and>
   st7789_backlight_set k dev b = st7789_backlight_set k dev 100 \<and>
   backlight_set_duty k bl b = backlight_set_duty k bl 100"
  by (simp add: setBacklight_def st7789_backlight_set_clamps backlight_set_duty_clamps)

theorem setBacklight_clamps_witness:
  "(100 :: uint8_t) < 150 \<and>
   setBacklight ST7789Display_default 150 = setBacklight ST7789Display_default 100 \<and>
   setBacklight ST7789Display_default 150 = [LedcWrite 22 1000] \<and>
   st7789_backlight_set sdk_all_ok (Some ready_device) 150 =
     st7789_backlight_set sdk_all_ok (Some ready_device) 100 \<and>
   backlight_set_duty sdk_all_ok (Some (backlight ready_device)) 150 =
     backlight_set_duty sdk_all_ok (Some (backlight ready_device)) 100"
proof -
  have gt: "(100 :: uint8_t) < 150"
    by simp
  have "setBacklight ST7789Display_default 150 = [LedcWrite 22 1000]"
    by (simp add: setBacklight_def ST7789Display_default_def EXAMPLE_PIN_NUM_BK_LIGHT_def)
  with gt setBacklight_clamps
    [OF gt, of ST7789Display_default sdk_all_ok "Some ready_device"
      "Some (backlight ready_device)"]
  show ?thesis
    by blast
qed

text \<open>
  Claim C10.  The stored brightness of the ESP-IDF driver is a percentage: whatever
  sequence of \<open>st7789_init\<close>, \<open>st7789_backlight_set\<close>, \<open>st7789_backlight_enable\<close> and
  \<open>st7789_backlight_fade\<close> calls a client makes on a device obtained from
  \<open>st7789_create\<close>, with whatever arguments and whatever the SDK answers,
  \<open>current_brightness\<close> is at most 100 afterwards and \<open>st7789_backlight_get\<close> returns a
  value of at most 100.  \<open>st7789_backlight_get\<close> returns 0 for a \<open>NULL\<close> device, for a
  device whose backlight is not initialised and, after any such sequence of calls, for a
  device that is not initialised; a successful \<open>backlight_init\<close> leaves the brightness
  0.
\<close>

theorem current_brightness_is_percentage:
  "brightness_in_range (run_api (fst (st7789_create calloc_ok cfg)) calls) \<and>
   st7789_backlight_get (run_api (fst (st7789_create calloc_ok cfg)) calls) \<le> 100 \<and>
   st7789_backlight_get None = 0 \<and>
   st7789_backlight_get (Some (d\<lparr>backlight := (backlight d)\<lparr>bl_is_initialized := False\<rparr>\<rparr>)) = 0 \<and>
   (case run_api (fst (st7789_create calloc_ok cfg)) calls of
      None \<Rightarrow> True
    | Some d' \<Rightarrow> is_initialized d' \<or> st7789_backlight_get (Some d') = 0) \<and>
   (fst (backlight_init k (Some b) gpio) = ESP_OK \<longrightarrow>
      map_option current_brightness (fst (snd (backlight_init k (Some b) gpio))) = Some 0 \<and>
      map_option bl_is_initialized (fst (snd (backlight_init k (Some b) gpio))) = Some True)"
proof -
  have inv: "brightness_in_range (run_api (fst (st7789_create calloc_ok cfg)) calls)"
    by (rule run_api_range) (rule st7789_create_range)
  then have get: "st7789_backlight_get (run_api (fst (st7789_create calloc_ok cfg)) calls) \<le> 100"
    by (rule st7789_backlight_get_range)
  have init: "map_option current_brightness (fst (snd (backlight_init k (Some b) gpio))) = Some 0 \<and>
      map_option bl_is_initialized (fst (snd (backlight_init k (Some b) gpio))) = Some True"
    if "fst (backlight_init k (Some b) gpio) = ESP_OK"
    using that by (auto simp: backlight_init_def split: if_splits)
  have uninit: "case run_api (fst (st7789_create calloc_ok cfg)) calls of
      None \<Rightarrow> True
    | Some d' \<Rightarrow> is_initialized d' \<or> st7789_backlight_get (Some d') = 0"
    by (rule st7789_backlight_get_uninitialized) (rule run_api_flags, rule st7789_create_flags)
  have off: "st7789_backlight_get None = 0"
      "st7789_backlight_get
         (Some (d\<lparr>backlight := (backlight d)\<lparr>bl_is_initialized := False\<rparr>\<rparr>)) = 0"
    by (simp_all add: st7789_backlight_get_def)
  show ?thesis
    using inv get init uninit off by blast
qed

theorem current_brightness_is_percentage_witness:
  "fst (backlight_init sdk_all_ok (Some zeroed_backlight) 22) = ESP_OK \<and>
   map_option current_brightness
     (fst (snd (backlight_init sdk_all_ok (Some zeroed_backlight) 22))) = Some 0 \<and>
   st7789_backlight_get
     (run_api (fst (st7789_create True (Some st7789_get_default_config)))
        [Call_init sdk_all_ok, Call_backlight_set sdk_all_ok 200]) = 100 \<and>
   st7789_backlight_get
     (run_api (fst (st7789_create True (Some st7789_get_default_config)))
        [Call_init sdk_all_ok, Call_backlight_set sdk_all_ok 200]) \<le> 100"
proof -
  have ok: "fst (backlight_init sdk_all_ok (Some zeroed_backlight) 22) = ESP_OK"
    by (simp add: backlight_init_def sdk_all_ok_def)
  have run: "st7789_backlight_get
     (run_api (fst (st7789_create True (Some st7789_get_default_config)))
        [Call_init sdk_all_ok, Call_backlight_set sdk_all_ok 200]) = 100"
    by (simp add: run_api_def st7789_create_def st7789_init_def st7789_backlight_set_def
        backlight_init_def backlight_set_duty_def with_backlight_def st7789_backlight_get_def
        zeroed_backlight_def sdk_all_ok_def Let_def BRIGHTNESS_MAX_def)
  from current_brightness_is_percentage
    [of True "Some st7789_get_default_config"
      "[Call_init sdk_all_ok, Call_backlight_set sdk_all_ok 200]"
      default_device sdk_all_ok zeroed_backlight 22] ok run
  show ?thesis
    by simp
qed

end
